theory Spec2Isabelle
  imports
    Complex_Main
    "HOL-Library.Char_ord"
    "HOL-Library.List_Lexorder"
    "HOL-Library.Product_Lexorder"
    "HOL-Library.Multiset"
    "HOL-Library.Sublist"
begin

section \<open>cook\_soup.py: the SOUP report generator\<close>

text \<open>
  A shallow embedding of \<^verbatim>\<open>scripts/cook_soup.py\<close>. Python strings are modelled as
  \<^typ>\<open>string\<close> restricted to ASCII text: \<^verbatim>\<open>casefold\<close> and \<^verbatim>\<open>lower\<close> act on the
  letters A to Z and leave every other character alone, and whitespace is the ASCII
  whitespace of \<^verbatim>\<open>str.isspace\<close>. Exceptions are values of \<open>py_exc\<close>; a function that can
  raise returns \<open>py_exc + 'a\<close> with \<open>Inl\<close> for the exception.
\<close>

subsection \<open>Exceptions\<close>

datatype py_exc =
    NameError
  | AttributeError
  | TypeError
  | ValueError
  | JSONDecodeError
  | UnicodeDecodeError
  | URLError
  | HTTPError nat
  | TimeoutError
  | FileNotFoundError
  | KeyboardInterrupt

text \<open>
  \<^verbatim>\<open>except Exception\<close> catches every class derived from \<^verbatim>\<open>Exception\<close>; of the exceptions
  modelled here only \<^verbatim>\<open>KeyboardInterrupt\<close> derives from \<^verbatim>\<open>BaseException\<close> directly.
\<close>

fun is_Exception :: "py_exc \<Rightarrow> bool" where
  "is_Exception KeyboardInterrupt = False"
| "is_Exception _ = True"

subsection \<open>String methods\<close>

definition py_isspace :: "char \<Rightarrow> bool" where
  "py_isspace c =
     (let n = (of_char c :: nat) in (9 \<le> n \<and> n \<le> 13) \<or> (28 \<le> n \<and> n \<le> 32))"

definition casefold_char :: "char \<Rightarrow> char" where
  "casefold_char c =
     (let n = (of_char c :: nat) in if 65 \<le> n \<and> n \<le> 90 then char_of (n + 32) else c)"

definition casefold :: "string \<Rightarrow> string" where
  "casefold s = map casefold_char s"

text \<open>On ASCII text \<^verbatim>\<open>str.lower\<close> and \<^verbatim>\<open>str.casefold\<close> coincide.\<close>

definition lower :: "string \<Rightarrow> string" where
  "lower s = map casefold_char s"

definition lstrip_ws :: "string \<Rightarrow> string" where
  "lstrip_ws s = dropWhile py_isspace s"

definition rstrip_ws :: "string \<Rightarrow> string" where
  "rstrip_ws s = rev (dropWhile py_isspace (rev s))"

text \<open>\<^verbatim>\<open>s.strip()\<close>: whitespace is removed at both ends.\<close>

definition strip :: "string \<Rightarrow> string" where
  "strip s = lstrip_ws (rstrip_ws s)"

text \<open>\<^verbatim>\<open>s.lstrip(chars)\<close> and \<^verbatim>\<open>s.rstrip(chars)\<close>: the argument is a set of characters,
  every leading (trailing) character of the set is removed.\<close>

definition lstrip_chars :: "string \<Rightarrow> string \<Rightarrow> string" where
  "lstrip_chars chars s = dropWhile (\<lambda>c. c \<in> set chars) s"

definition rstrip_chars :: "string \<Rightarrow> string \<Rightarrow> string" where
  "rstrip_chars chars s = rev (dropWhile (\<lambda>c. c \<in> set chars) (rev s))"

subsection \<open>License registry\<close>

record License =
  requires_license_file :: bool
  is_non_commercial_only :: bool

definition LICENSE_MAPPING :: "(string \<times> License) list" where
  "LICENSE_MAPPING =
    [(''apache-2.0'',   \<lparr>requires_license_file = True,  is_non_commercial_only = False\<rparr>),
     (''mit'',          \<lparr>requires_license_file = True,  is_non_commercial_only = False\<rparr>),
     (''bsd'',          \<lparr>requires_license_file = True,  is_non_commercial_only = False\<rparr>),
     (''bsd-2-clause'', \<lparr>requires_license_file = True,  is_non_commercial_only = False\<rparr>),
     (''bsd-3-clause'', \<lparr>requires_license_file = True,  is_non_commercial_only = False\<rparr>),
     (''gpl-2.0'',      \<lparr>requires_license_file = True,  is_non_commercial_only = False\<rparr>),
     (''gpl-3.0'',      \<lparr>requires_license_file = True,  is_non_commercial_only = False\<rparr>),
     (''lgpl-2.1'',     \<lparr>requires_license_file = True,  is_non_commercial_only = False\<rparr>),
     (''lgpl-3.0'',     \<lparr>requires_license_file = True,  is_non_commercial_only = False\<rparr>),
     (''mpl-2.0'',      \<lparr>requires_license_file = True,  is_non_commercial_only = False\<rparr>),
     (''cc0-1.0'',      \<lparr>requires_license_file = False, is_non_commercial_only = False\<rparr>),
     (''isc'',          \<lparr>requires_license_file = True,  is_non_commercial_only = False\<rparr>),
     (''agpl-3.0'',     \<lparr>requires_license_file = True,  is_non_commercial_only = False\<rparr>),
     (''unlicense'',    \<lparr>requires_license_file = True,  is_non_commercial_only = False\<rparr>),
     (''cc-by-nc-4.0'', \<lparr>requires_license_file = True,  is_non_commercial_only = True\<rparr>),
     (''unknown'',      \<lparr>requires_license_file = False, is_non_commercial_only = False\<rparr>)]"

definition unknown_license :: License where
  "unknown_license = \<lparr>requires_license_file = False, is_non_commercial_only = False\<rparr>"

text \<open>\<^verbatim>\<open>LICENSE_MAPPING.get(normalized, LICENSE_MAPPING["unknown"])\<close>.\<close>

definition get_license_object :: "string \<Rightarrow> License" where
  "get_license_object license_id =
     (let normalized = strip (casefold license_id) in
      case map_of LICENSE_MAPPING normalized of
        Some l \<Rightarrow> l
      | None \<Rightarrow> unknown_license)"

text \<open>\<^verbatim>\<open>normalize_license\<close>: the emptiness test comes first, on the raw argument.\<close>

definition normalize_license :: "string \<Rightarrow> string" where
  "normalize_license license_str =
     (if license_str = [] then ''unknown'' else strip (casefold license_str))"

subsection \<open>Python values\<close>

text \<open>
  Values that arrive from JSON documents (\<^verbatim>\<open>json.loads\<close>) and values that may be
  \<^verbatim>\<open>None\<close>. \<open>JNull\<close> is \<^verbatim>\<open>None\<close>; numbers are integers; \<open>JObj\<close> is a dict, read
  with \<open>map_of\<close>.
\<close>

datatype json =
    JNull
  | JBool bool
  | JNum int
  | JStr string
  | JArr "json list"
  | JObj "(string \<times> json) list"

text \<open>Truth value testing, as \<^verbatim>\<open>if x\<close> and \<^verbatim>\<open>not x\<close> do it.\<close>

fun truthy :: "json \<Rightarrow> bool" where
  "truthy JNull = False"
| "truthy (JBool b) = b"
| "truthy (JNum n) = (n \<noteq> 0)"
| "truthy (JStr s) = (s \<noteq> [])"
| "truthy (JArr xs) = (xs \<noteq> [])"
| "truthy (JObj kvs) = (kvs \<noteq> [])"

subsection \<open>Version comparison\<close>

definition is_digit :: "char \<Rightarrow> bool" where
  "is_digit c = (let n = (of_char c :: nat) in 48 \<le> n \<and> n \<le> 57)"

definition digit_value :: "char \<Rightarrow> nat" where
  "digit_value c = of_char c - 48"

text \<open>\<^verbatim>\<open>int(s)\<close> on a string of decimal digits.\<close>

definition int_of_digits :: "string \<Rightarrow> int" where
  "int_of_digits ds = foldl (\<lambda>a c. 10 * a + int (digit_value c)) 0 ds"

text \<open>
  \<^verbatim>\<open>re.match(r"(\d+)\.", s)\<close>: the pattern is anchored at the start of \<open>s\<close>; the greedy
  group takes the longest run of digits, and backtracking to a shorter run cannot help,
  since the character after a shorter run is a digit and not the dot. So there is a match
  exactly when the longest leading run of digits is not empty and a dot follows it, and
  group 1 is that run.
\<close>

definition match_major_group :: "string \<Rightarrow> string option" where
  "match_major_group s =
     (let ds = takeWhile is_digit s; rest = dropWhile is_digit s
      in if ds \<noteq> [] \<and> take 1 rest = ''.'' then Some ds else None)"

text \<open>
  The inner function \<^verbatim>\<open>parse_major\<close>. A value that is not a string has no \<^verbatim>\<open>lstrip\<close>.
\<close>

definition parse_major :: "json \<Rightarrow> py_exc + int" where
  "parse_major ver_str =
     (case ver_str of
        JStr s \<Rightarrow>
          (case match_major_group (lstrip_chars ''v'' s) of
             Some ds \<Rightarrow> Inr (int_of_digits ds)
           | None \<Rightarrow> Inr 0)
      | _ \<Rightarrow> Inl AttributeError)"

definition is_significantly_older :: "json \<Rightarrow> json \<Rightarrow> py_exc + bool" where
  "is_significantly_older local_version latest_version =
     (if \<not> truthy local_version \<or> \<not> truthy latest_version then Inr False
      else case parse_major local_version of
        Inl e \<Rightarrow> Inl e
      | Inr local_major \<Rightarrow>
          (case parse_major latest_version of
             Inl e \<Rightarrow> Inl e
           | Inr latest_major \<Rightarrow> Inr (latest_major - local_major \<ge> 1)))"


subsection \<open>Dependency records and the ingestion adapters\<close>

text \<open>
  The dict every adapter returns per dependency. The scanner outputs are taken to be
  well-typed: names, versions, URLs and licenses are strings.
\<close>

record dep_entry =
  name :: string
  version :: string
  url :: string
  license :: string

text \<open>
  An entry of \<^verbatim>\<open>licenses-poetry.json\<close>; \<open>None\<close> is an absent key.
\<close>

record poetry_item =
  item_Name :: "string option"
  item_Version :: "string option"
  item_URL :: "string option"
  item_License :: "string option"

text \<open>\<^verbatim>\<open>d.get(key, default)\<close> on a string-valued key.\<close>

definition get_or :: "string option \<Rightarrow> string \<Rightarrow> string" where
  "get_or v dflt = (case v of Some s \<Rightarrow> s | None \<Rightarrow> dflt)"

definition process_poetry_item :: "poetry_item \<Rightarrow> dep_entry" where
  "process_poetry_item item =
     (let normalized = normalize_license (get_or (item_License item) [])
      in \<lparr>name = get_or (item_Name item) ''Unknown'',
          version = get_or (item_Version item) ''Unknown'',
          url = get_or (item_URL item) [],
          license = normalized\<rparr>)"

definition process_poetry_licenses :: "poetry_item list \<Rightarrow> dep_entry list" where
  "process_poetry_licenses data = map process_poetry_item data"

text \<open>
  A value of \<^verbatim>\<open>licenses-npm.json\<close>: the \<^verbatim>\<open>licenses\<close> field is a string or a list of
  strings.
\<close>

datatype licenses_value = LicensesStr string | LicensesList "string list"

record npm_info =
  info_licenses :: "licenses_value option"
  info_repository :: "string option"
  info_url :: "string option"

text \<open>
  \<^verbatim>\<open>s.rsplit(sep, 1)\<close> for a string that contains \<open>sep\<close>: the parts before and after
  the last occurrence.
\<close>

definition rsplit_once :: "char \<Rightarrow> string \<Rightarrow> string \<times> string" where
  "rsplit_once sep s =
     (let r = rev s
      in (rev (drop 1 (dropWhile (\<lambda>c. c \<noteq> sep) r)), rev (takeWhile (\<lambda>c. c \<noteq> sep) r)))"

text \<open>\<^verbatim>\<open>a or b\<close> where \<open>a\<close> is a string or \<^verbatim>\<open>None\<close>.\<close>

definition str_or :: "string option \<Rightarrow> string \<Rightarrow> string" where
  "str_or a b = (case a of Some s \<Rightarrow> (if s \<noteq> [] then s else b) | None \<Rightarrow> b)"

text \<open>
  The license of an npm entry: \<^verbatim>\<open>info.get("licenses", "")\<close>, replaced by its first
  element when it is a non-empty list, then normalized. An empty list reaches
  \<^verbatim>\<open>normalize_license\<close> as it is, where \<^verbatim>\<open>not license_str\<close> holds for it.
\<close>

definition npm_license_str :: "licenses_value option \<Rightarrow> string" where
  "npm_license_str l =
     (case l of
        None \<Rightarrow> normalize_license []
      | Some (LicensesStr s) \<Rightarrow> normalize_license s
      | Some (LicensesList []) \<Rightarrow> ''unknown''
      | Some (LicensesList (x # xs)) \<Rightarrow> normalize_license x)"

definition process_npm_entry :: "string \<times> npm_info \<Rightarrow> dep_entry" where
  "process_npm_entry item =
     (let package_key = fst item; info = snd item;
          (name', version') =
             (if CHR ''@'' \<in> set package_key then rsplit_once CHR ''@'' package_key
              else (package_key, ''unknown''));
          normalized = npm_license_str (info_licenses info);
          url' = str_or (info_repository info) (str_or (info_url info) [])
      in \<lparr>name = name', version = version', url = url', license = normalized\<rparr>)"

text \<open>The loop over \<^verbatim>\<open>data.items()\<close>, in the order of the document.\<close>

definition process_npm_licenses :: "(string \<times> npm_info) list \<Rightarrow> dep_entry list" where
  "process_npm_licenses data = map process_npm_entry data"

text \<open>A string field that may be absent, read as the empty string when it is.\<close>

definition opt_str :: "string option \<Rightarrow> string" where
  "opt_str a = (case a of Some s \<Rightarrow> s | None \<Rightarrow> [])"

definition npm_example :: "(string \<times> npm_info) list" where
  "npm_example =
     [(''@babel/core@7.0.0'',
        \<lparr>info_licenses = Some (LicensesList [''MIT'', ''Apache-2.0'']),
         info_repository = Some [], info_url = Some ''https://babeljs.io''\<rparr>),
      (''left-pad'',
        \<lparr>info_licenses = None, info_repository = None, info_url = None\<rparr>)]"

subsection \<open>Deduplication\<close>

text \<open>
  \<^verbatim>\<open>unique_map\<close> is a dict; it is modelled as an association list in insertion order,
  which is the order \<^verbatim>\<open>list(unique_map.values())\<close> returns.
\<close>

definition entry_key :: "dep_entry \<Rightarrow> string \<times> string \<times> string" where
  "entry_key e = (name e, version e, license e)"

definition dedup_step ::
  "((string \<times> string \<times> string) \<times> dep_entry) list \<Rightarrow> dep_entry
   \<Rightarrow> ((string \<times> string \<times> string) \<times> dep_entry) list" where
  "dedup_step unique_map e =
     (let key = entry_key e
      in if map_of unique_map key = None then unique_map @ [(key, e)] else unique_map)"

definition deduplicate :: "dep_entry list \<Rightarrow> dep_entry list" where
  "deduplicate entries = map snd (foldl dedup_step [] entries)"

text \<open>
  The records of a list whose key is not in \<open>seen\<close> and occurs for the first time; used
  to describe the result of \<open>deduplicate\<close>.
\<close>

fun first_seen :: "(string \<times> string \<times> string) set \<Rightarrow> dep_entry list \<Rightarrow> dep_entry list" where
  "first_seen seen [] = []"
| "first_seen seen (e # es) =
     (if entry_key e \<in> seen then first_seen seen es
      else e # first_seen (insert (entry_key e) seen) es)"

subsection \<open>Enriched records and the final sort\<close>

record enriched_entry = dep_entry +
  risk_level :: string
  license_req :: string
  "notes" :: string

text \<open>\<^verbatim>\<open>risk_priority.get(e["risk_level"], 999)\<close>.\<close>

definition risk_priority :: "string \<Rightarrow> nat" where
  "risk_priority r =
     (case map_of [(''High'', 1), (''Medium'', 2), (''Low'', 3)] r of
        Some p \<Rightarrow> p
      | None \<Rightarrow> 999)"

definition sort_entries_key :: "enriched_entry \<Rightarrow> nat \<times> string" where
  "sort_entries_key e = (risk_priority (risk_level e), lower (name e))"

text \<open>
  \<^verbatim>\<open>final_entries.sort(key=...)\<close>: Python's sort is stable, and a stable sort by a key
  has one result, the one the insertion sort \<open>sort_key\<close> computes. Tuples and strings
  compare lexicographically.
\<close>

definition sort_entries :: "enriched_entry list \<Rightarrow> enriched_entry list" where
  "sort_entries final_entries = sort_key sort_entries_key final_entries"


subsection \<open>Sequencing and small string functions\<close>

text \<open>An exception ends the evaluation; a value is passed on.\<close>

definition bind_exc :: "py_exc + 'a \<Rightarrow> ('a \<Rightarrow> py_exc + 'b) \<Rightarrow> py_exc + 'b" where
  "bind_exc r f = (case r of Inl e \<Rightarrow> Inl e | Inr x \<Rightarrow> f x)"

text \<open>
  \<^verbatim>\<open>s.replace(old, new)\<close> for a non-empty \<open>old\<close>: the occurrences are replaced from left
  to right, without overlap. (Both uses in the program have a non-empty \<open>old\<close>.)
\<close>

fun str_replace :: "string \<Rightarrow> string \<Rightarrow> string \<Rightarrow> string" where
  "str_replace old new [] = []"
| "str_replace old new (c # cs) =
     (if old \<noteq> [] \<and> take (length old) (c # cs) = old
      then new @ str_replace old new (drop (length old) (c # cs))
      else c # str_replace old new cs)"

text \<open>\<^verbatim>\<open>sep.join(xs)\<close>.\<close>

fun join :: "string \<Rightarrow> string list \<Rightarrow> string" where
  "join sep [] = []"
| "join sep [x] = x"
| "join sep (x # y # ys) = x @ sep @ join sep (y # ys)"

subsection \<open>Repository metadata fetcher\<close>

text \<open>
  A \<^verbatim>\<open>datetime\<close> is a number of microseconds since the epoch, aware (with a UTC offset,
  normalized to UTC) or naive. \<^verbatim>\<open>datetime.fromisoformat\<close> is a parameter of the model:
  \<open>None\<close> stands for its \<^verbatim>\<open>ValueError\<close>.
\<close>

datatype datetime = Aware int | Naive int

record repo_info =
  stars :: json
  last_commit_date :: "datetime option"
  latest_version :: json
  open_issues_count :: json
  last_release_date :: "datetime option"
  has_known_cve :: bool

definition default_info :: repo_info where
  "default_info =
     \<lparr>stars = JNum 0, last_commit_date = None, latest_version = JNull,
      open_issues_count = JNum 0, last_release_date = None, has_known_cve = False\<rparr>"

text \<open>\<^verbatim>\<open>data.get(key, default)\<close>: only a dict has the method.\<close>

definition dict_get :: "json \<Rightarrow> string \<Rightarrow> json \<Rightarrow> py_exc + json" where
  "dict_get data key dflt =
     (case data of
        JObj kvs \<Rightarrow> Inr (case map_of kvs key of Some v \<Rightarrow> v | None \<Rightarrow> dflt)
      | _ \<Rightarrow> Inl AttributeError)"

text \<open>
  \<^verbatim>\<open>datetime.fromisoformat(v.replace("Z", "+00:00"))\<close>: only a string has \<^verbatim>\<open>replace\<close>.
\<close>

definition parse_timestamp :: "(string \<Rightarrow> datetime option) \<Rightarrow> json \<Rightarrow> py_exc + datetime" where
  "parse_timestamp fromisoformat v =
     (case v of
        JStr s \<Rightarrow>
          (case fromisoformat (str_replace ''Z'' ''+00:00'' s) of
             Some d \<Rightarrow> Inr d
           | None \<Rightarrow> Inl ValueError)
      | _ \<Rightarrow> Inl AttributeError)"

text \<open>
  The bodies of the three \<^verbatim>\<open>try\<close> blocks. The argument \<open>resp\<close> is the outcome of
  \<^verbatim>\<open>json.loads(urlopen(req, timeout=10).read().decode("utf-8"))\<close>: the parsed document, or
  the exception raised on the way (connection failure, HTTP error status, timeout, bytes
  that are not UTF-8, text that is not JSON). A body returns the \<^verbatim>\<open>result\<close> dict as it
  stands when the block is left, and the exception that left it, if any.
\<close>

definition fetch_basic_info ::
  "(string \<Rightarrow> datetime option) \<Rightarrow> py_exc + json \<Rightarrow> repo_info \<Rightarrow> repo_info \<times> py_exc option" where
  "fetch_basic_info fromisoformat resp result =
     (case resp of
        Inl e \<Rightarrow> (result, Some e)
      | Inr data \<Rightarrow>
          (case dict_get data ''stargazers_count'' (JNum 0) of
             Inl e \<Rightarrow> (result, Some e)
           | Inr s \<Rightarrow>
               (let result = result\<lparr>stars := s\<rparr> in
                case dict_get data ''open_issues_count'' (JNum 0) of
                  Inl e \<Rightarrow> (result, Some e)
                | Inr n \<Rightarrow>
                    (let result = result\<lparr>open_issues_count := n\<rparr> in
                     case dict_get data ''pushed_at'' (JStr []) of
                       Inl e \<Rightarrow> (result, Some e)
                     | Inr pushed_at \<Rightarrow>
                         if truthy pushed_at then
                           (case parse_timestamp fromisoformat pushed_at of
                              Inl e \<Rightarrow> (result, Some e)
                            | Inr d \<Rightarrow> (result\<lparr>last_commit_date := Some d\<rparr>, None))
                         else (result, None)))))"

definition fetch_latest_release ::
  "(string \<Rightarrow> datetime option) \<Rightarrow> py_exc + json \<Rightarrow> repo_info \<Rightarrow> repo_info \<times> py_exc option" where
  "fetch_latest_release fromisoformat resp result =
     (case resp of
        Inl e \<Rightarrow> (result, Some e)
      | Inr data \<Rightarrow>
          (case dict_get data ''tag_name'' JNull of
             Inl e \<Rightarrow> (result, Some e)
           | Inr t \<Rightarrow>
               (let result = result\<lparr>latest_version := t\<rparr> in
                case dict_get data ''published_at'' (JStr []) of
                  Inl e \<Rightarrow> (result, Some e)
                | Inr published_at \<Rightarrow>
                    if truthy published_at then
                      (case parse_timestamp fromisoformat published_at of
                         Inl e \<Rightarrow> (result, Some e)
                       | Inr d \<Rightarrow> (result\<lparr>last_release_date := Some d\<rparr>, None))
                    else (result, None))))"

definition fetch_advisories :: "py_exc + json \<Rightarrow> repo_info \<Rightarrow> repo_info \<times> py_exc option" where
  "fetch_advisories resp result =
     (case resp of
        Inl e \<Rightarrow> (result, Some e)
      | Inr advisories_data \<Rightarrow>
          (case advisories_data of
             JArr xs \<Rightarrow>
               (if length xs > 0 then (result\<lparr>has_known_cve := True\<rparr>, None)
                else (result, None))
           | _ \<Rightarrow> (result, None)))"

text \<open>
  The handlers of the three blocks. Every branch is \<^verbatim>\<open>pass\<close>; an exception that no
  clause catches propagates.
\<close>

definition except_Exception :: "repo_info \<times> py_exc option \<Rightarrow> py_exc + repo_info" where
  "except_Exception r =
     (case snd r of
        None \<Rightarrow> Inr (fst r)
      | Some e \<Rightarrow> if is_Exception e then Inr (fst r) else Inl e)"

definition except_release :: "repo_info \<times> py_exc option \<Rightarrow> py_exc + repo_info" where
  "except_release r =
     (case snd r of
        None \<Rightarrow> Inr (fst r)
      | Some (HTTPError code) \<Rightarrow> (if code \<noteq> 404 then Inr (fst r) else Inr (fst r))
      | Some e \<Rightarrow> if is_Exception e then Inr (fst r) else Inl e)"

definition except_advisories :: "repo_info \<times> py_exc option \<Rightarrow> py_exc + repo_info" where
  "except_advisories r =
     (case snd r of
        None \<Rightarrow> Inr (fst r)
      | Some (HTTPError code) \<Rightarrow> Inr (fst r)
      | Some e \<Rightarrow> if is_Exception e then Inr (fst r) else Inl e)"

text \<open>
  The network: the outcome of a GET request, by URL and headers. The token is the value
  of \<^verbatim>\<open>os.environ.get("GITHUB_TOKEN", "")\<close>.
\<close>

type_synonym http = "string \<Rightarrow> (string \<times> string) list \<Rightarrow> py_exc + json"

definition request_headers :: "string \<Rightarrow> (string \<times> string) list" where
  "request_headers api_token =
     [(''Accept'', ''application/vnd.github+json'')]
     @ (if api_token \<noteq> [] then [(''Authorization'', ''Bearer '' @ api_token)] else [])"

definition base_repo_api_url :: "string \<Rightarrow> string \<Rightarrow> string" where
  "base_repo_api_url owner repo = ''https://api.github.com/repos/'' @ owner @ ''/'' @ repo"

definition releases_api_url :: "string \<Rightarrow> string \<Rightarrow> string" where
  "releases_api_url owner repo = base_repo_api_url owner repo @ ''/releases/latest''"

definition advisories_url :: "string \<Rightarrow> string \<Rightarrow> string" where
  "advisories_url owner repo =
     ''https://api.github.com/repos/'' @ owner @ ''/'' @ repo @ ''/security/advisories''"

definition fetch_github_repo_info ::
  "string \<Rightarrow> http \<Rightarrow> (string \<Rightarrow> datetime option) \<Rightarrow> string \<Rightarrow> string \<Rightarrow> py_exc + repo_info" where
  "fetch_github_repo_info api_token http fromisoformat owner repo =
     (let headers = request_headers api_token;
          result = default_info
      in bind_exc (except_Exception
           (fetch_basic_info fromisoformat (http (base_repo_api_url owner repo) headers) result))
         (\<lambda>result.
       bind_exc (except_release
           (fetch_latest_release fromisoformat (http (releases_api_url owner repo) headers) result))
         (\<lambda>result.
       except_advisories
           (fetch_advisories (http (advisories_url owner repo) headers) result))))"

text \<open>Example data: two values of \<^verbatim>\<open>fromisoformat\<close>, and a network.\<close>

definition example_fromisoformat :: "string \<Rightarrow> datetime option" where
  "example_fromisoformat =
     map_of [(''2020-01-01T00:00:00+00:00'', Aware 1577836800000000),
             (''2024-06-01T12:00:00+00:00'', Aware 1717243200000000)]"

definition example_http :: http where
  "example_http u headers =
     (if u = ''https://api.github.com/repos/psf/requests'' then
        Inr (JObj [(''stargazers_count'', JNum 5), (''open_issues_count'', JNum 3),
                   (''pushed_at'', JStr ''2020-01-01T00:00:00Z'')])
      else if u = ''https://api.github.com/repos/psf/requests/releases/latest'' then
        Inl (HTTPError 404)
      else if u = ''https://api.github.com/repos/psf/requests/security/advisories'' then
        Inr (JArr [JObj []])
      else Inl URLError)"

subsection \<open>Risk scorer\<close>

text \<open>
  The names the module binds when \<^verbatim>\<open>main\<close> runs: its imports, its class, its table and
  its functions. The file holds no definition or import of \<^verbatim>\<open>parse_maintainer_from_url\<close>,
  and no builtin has that name.
\<close>

definition module_globals :: "string list" where
  "module_globals =
     [''json'', ''os'', ''re'', ''urllib'', ''datetime'', ''timezone'',
      ''License'', ''LICENSE_MAPPING'', ''get_license_object'', ''normalize_license'',
      ''process_poetry_licenses'', ''process_npm_licenses'', ''fetch_github_repo_info'',
      ''is_significantly_older'', ''assess_risk'', ''main'']"

text \<open>
  Evaluating a global name: the value bound to it, or \<^verbatim>\<open>NameError\<close>. The second argument
  is the value the name would have if it were bound.
\<close>

definition load_global :: "string \<Rightarrow> 'a \<Rightarrow> py_exc + 'a" where
  "load_global nm v = (if nm \<in> set module_globals then Inr v else Inl NameError)"

text \<open>
  \<^verbatim>\<open>re.search(r"github\.com/([^/]+)/([^/]+)", repo_url)\<close>: the leftmost position where
  the pattern matches. At a position the text \<open>github.com/\<close> must come first; each group
  is greedy and takes the longest run of characters other than \<open>/\<close>, which must not be
  empty, and a \<open>/\<close> stands between the two runs. A shorter first group cannot match,
  since it would be followed by a character that is not \<open>/\<close>.
\<close>

definition match_github_here :: "string \<Rightarrow> (string \<times> string) option" where
  "match_github_here s =
     (if take 11 s = ''github.com/'' then
        (let rest = drop 11 s;
             g1 = takeWhile (\<lambda>c. c \<noteq> CHR ''/'') rest;
             after = dropWhile (\<lambda>c. c \<noteq> CHR ''/'') rest;
             g2 = takeWhile (\<lambda>c. c \<noteq> CHR ''/'') (drop 1 after)
         in if g1 \<noteq> [] \<and> take 1 after = ''/'' \<and> g2 \<noteq> [] then Some (g1, g2) else None)
      else None)"

fun re_search_github :: "string \<Rightarrow> (string \<times> string) option" where
  "re_search_github [] = None"
| "re_search_github (c # cs) =
     (case match_github_here (c # cs) of
        Some g \<Rightarrow> Some g
      | None \<Rightarrow> re_search_github cs)"

text \<open>
  Arithmetic and comparison on a value from JSON: defined on numbers (and on booleans,
  which are integers in Python), \<^verbatim>\<open>TypeError\<close> otherwise.
\<close>

definition as_number :: "json \<Rightarrow> py_exc + int" where
  "as_number v =
     (case v of
        JNum n \<Rightarrow> Inr n
      | JBool b \<Rightarrow> Inr (if b then 1 else 0)
      | _ \<Rightarrow> Inl TypeError)"

text \<open>
  \<^verbatim>\<open>(datetime.now(timezone.utc) - d).days\<close>: whole days, rounded down; subtracting a
  naive datetime from an aware one raises \<^verbatim>\<open>TypeError\<close>.
\<close>

definition days_since :: "int \<Rightarrow> datetime \<Rightarrow> py_exc + int" where
  "days_since now d =
     (case d of
        Aware t \<Rightarrow> Inr ((now - t) div 86400000000)
      | Naive t \<Rightarrow> Inl TypeError)"

text \<open>\<^verbatim>\<open>score += points; notes_list.append(label)\<close>.\<close>

definition add_note :: "nat \<Rightarrow> string \<Rightarrow> nat \<times> string list \<Rightarrow> nat \<times> string list" where
  "add_note points label st = (fst st + points, snd st @ [label])"

definition risk_of_score :: "nat \<Rightarrow> string" where
  "risk_of_score score =
     (if score \<le> 1 then ''Low'' else if score \<le> 3 then ''Medium'' else ''High'')"

text \<open>
  Lines 282 to 331 of \<^verbatim>\<open>assess_risk\<close>: the six rules in their order, the mapping of the
  score to a risk level and the joined notes. The ratio of rule 4 is Python's true
  division; it is modelled by exact rational arithmetic.
\<close>

definition score_info :: "int \<Rightarrow> repo_info \<Rightarrow> string \<Rightarrow> py_exc + string \<times> string" where
  "score_info now info local_version =
     (let st = (0, []) in
      bind_exc
        (case last_commit_date info of
           Some d \<Rightarrow>
             bind_exc (days_since now d) (\<lambda>days_since_push.
               Inr (if days_since_push > 365 then add_note 1 ''Infrequent Commits'' st else st))
         | None \<Rightarrow> Inr st)
        (\<lambda>st.
      bind_exc (as_number (stars info)) (\<lambda>stars_n.
      let st = (if stars_n < 100 then add_note 2 ''Low Popularity'' st else st) in
      bind_exc (is_significantly_older (JStr local_version) (latest_version info)) (\<lambda>older.
      let st = (if older then add_note 2 ''Version Behind Latest'' st else st) in
      bind_exc (as_number (open_issues_count info)) (\<lambda>issues_n.
      let issues_per_100_stars = (of_int (issues_n * 100) :: rat) / of_int (max stars_n 1);
          st = (if issues_per_100_stars > 50 then add_note 1 ''Excessive Open Issues'' st else st)
      in
      bind_exc
        (case last_release_date info of
           Some d \<Rightarrow>
             bind_exc (days_since now d) (\<lambda>days_since_release.
               Inr (if days_since_release > 730 then add_note 1 ''Stale Release (>2y)'' st else st))
         | None \<Rightarrow> Inr st)
        (\<lambda>st.
      let st = (if has_known_cve info then add_note 3 ''Known CVE/CWEs'' st else st);
          risk_level = risk_of_score (fst st);
          notes = join '', '' (snd st)
      in Inr (risk_level, notes)))))))"

text \<open>
  What a run reads from outside: the token, the network, \<^verbatim>\<open>fromisoformat\<close> and the
  clock, in microseconds since the epoch. One reading of the clock stands for all of a
  run, which is short against the whole days the scorer compares.
\<close>

record environment =
  api_token :: string
  http_get :: http
  fromisoformat :: "string \<Rightarrow> datetime option"
  now_utc :: int

text \<open>
  The body of \<^verbatim>\<open>assess_risk\<close> once the name \<^verbatim>\<open>parse_maintainer_from_url\<close> has a value,
  which is the first argument.
\<close>

definition assess_risk_body ::
  "(string \<Rightarrow> string) \<Rightarrow> environment \<Rightarrow> string \<Rightarrow> string \<Rightarrow> py_exc + string \<times> string" where
  "assess_risk_body parse_maintainer_from_url env repo_url local_version =
     (let owner = parse_maintainer_from_url repo_url in
      if owner = [] then Inr (''Low'', [])
      else
        (case re_search_github repo_url of
           None \<Rightarrow> Inr (''Low'', [])
         | Some g \<Rightarrow>
             (let repo_name = rstrip_chars ''.git'' (snd g) in
              bind_exc
                (fetch_github_repo_info (api_token env) (http_get env) (fromisoformat env)
                   owner repo_name)
                (\<lambda>info. score_info (now_utc env) info local_version))))"

text \<open>
  \<^verbatim>\<open>assess_risk\<close>: its first statement evaluates the global name
  \<^verbatim>\<open>parse_maintainer_from_url\<close>, then calls its value.
\<close>

definition assess_risk ::
  "(string \<Rightarrow> string) \<Rightarrow> environment \<Rightarrow> string \<Rightarrow> string \<Rightarrow> py_exc + string \<times> string" where
  "assess_risk binding env repo_url local_version =
     bind_exc (load_global ''parse_maintainer_from_url'' binding)
       (\<lambda>parse_maintainer_from_url.
          assess_risk_body parse_maintainer_from_url env repo_url local_version)"

text \<open>
  The rules of the scorer as the specification lists them, with points and labels: the
  list of the rules that apply to given metadata, in rule order.
\<close>

definition spec_triggered_rules :: "int \<Rightarrow> repo_info \<Rightarrow> string \<Rightarrow> (nat \<times> string) list" where
  "spec_triggered_rules now info lv = map snd (filter fst
     [((case last_commit_date info of Some (Aware t) \<Rightarrow> (now - t) div 86400000000 > 365
        | _ \<Rightarrow> False), (1, ''Infrequent Commits'')),
      ((case stars info of JNum s \<Rightarrow> s < 100 | _ \<Rightarrow> False), (2, ''Low Popularity'')),
      (is_significantly_older (JStr lv) (latest_version info) = Inr True,
         (2, ''Version Behind Latest'')),
      ((case (open_issues_count info, stars info) of
          (JNum n, JNum s) \<Rightarrow> (of_int (n * 100) :: rat) / of_int (max s 1) > 50
        | _ \<Rightarrow> False), (1, ''Excessive Open Issues'')),
      ((case last_release_date info of Some (Aware t) \<Rightarrow> (now - t) div 86400000000 > 730
        | _ \<Rightarrow> False), (1, ''Stale Release (>2y)'')),
      (has_known_cve info, (3, ''Known CVE/CWEs''))])"

definition example_env :: environment where
  "example_env = \<lparr>api_token = [], http_get = example_http,
      fromisoformat = example_fromisoformat, now_utc = 1717243200000000\<rparr>"


subsection \<open>Aggregation pipeline\<close>

definition license_requirement :: "License \<Rightarrow> string" where
  "license_requirement license_obj =
     (let license_req =
            (if requires_license_file license_obj then ''Include License File''
             else ''No License File Required'')
      in if is_non_commercial_only license_obj
         then license_req @ '', NON-COMMERCIAL USE ONLY''
         else license_req)"

text \<open>
  The body of the enrichment loop of \<^verbatim>\<open>main\<close>, for any scorer in the place of
  \<^verbatim>\<open>assess_risk\<close>. An exception of the scorer leaves the loop and \<^verbatim>\<open>main\<close>.
\<close>

definition enrich_entry ::
  "(string \<Rightarrow> string \<Rightarrow> py_exc + string \<times> string) \<Rightarrow> dep_entry \<Rightarrow> py_exc + enriched_entry" where
  "enrich_entry scorer entry =
     (let license_obj = get_license_object (license entry);
          license_req = license_requirement license_obj
      in bind_exc (scorer (url entry) (version entry)) (\<lambda>scored.
           let scored =
                 (if license entry = ''unknown''
                  then (''High'', ''Unknown License, Manual Review Required'')
                  else scored)
           in Inr \<lparr>name = name entry, version = version entry, url = url entry,
                   license = license entry, risk_level = fst scored,
                   license_req = license_req, notes = snd scored\<rparr>))"

fun enrich_entries ::
  "(string \<Rightarrow> string \<Rightarrow> py_exc + string \<times> string) \<Rightarrow> dep_entry list
   \<Rightarrow> py_exc + enriched_entry list" where
  "enrich_entries scorer [] = Inr []"
| "enrich_entries scorer (entry # rest) =
     bind_exc (enrich_entry scorer entry) (\<lambda>e.
       bind_exc (enrich_entries scorer rest) (\<lambda>es. Inr (e # es)))"

text \<open>The rows of the markdown table.\<close>

definition table_row :: "enriched_entry \<Rightarrow> string" where
  "table_row entry =
     ''| '' @ risk_level entry @ '' '' @
     ''| '' @ name entry @ '' '' @
     ''| '' @ version entry @ '' '' @
     ''| '' @ license entry @ '' '' @
     ''| '' @ license_req entry @ '' '' @
     ''| '' @ notes entry @ '' '' @
     ''| '' @ url entry @ '' |''"

definition md_lines :: "enriched_entry list \<Rightarrow> string list" where
  "md_lines final_entries =
     [''| Risk Level | Component Name | Version | License | License Requirements | Notes | GitHub Repo URL |'',
      ''|------------|---------------|---------|---------|----------------------|-------|-----------------|'']
     @ map table_row final_entries"

text \<open>
  The files \<^verbatim>\<open>main\<close> reads. An input file is absent (\<open>None\<close>), or reading and parsing
  it raises, or it holds a document. Reading the template raises or gives its text.
\<close>

record input_files =
  npm_file :: "(py_exc + (string \<times> npm_info) list) option"
  poetry_file :: "(py_exc + poetry_item list) option"
  template_file :: "py_exc + string"

definition collect_entries :: "input_files \<Rightarrow> py_exc + dep_entry list" where
  "collect_entries files =
     bind_exc
       (case npm_file files of
          Some doc \<Rightarrow> bind_exc doc (\<lambda>data. Inr (process_npm_licenses data))
        | None \<Rightarrow> Inr [])
       (\<lambda>npm_entries.
     bind_exc
       (case poetry_file files of
          Some doc \<Rightarrow> bind_exc doc (\<lambda>data. Inr (process_poetry_licenses data))
        | None \<Rightarrow> Inr [])
       (\<lambda>poetry_entries. Inr (npm_entries @ poetry_entries)))"

text \<open>\<^verbatim>\<open>main\<close>: the result is the text written to \<^verbatim>\<open>SOUP.md\<close>.\<close>

definition main :: "(string \<Rightarrow> string) \<Rightarrow> environment \<Rightarrow> input_files \<Rightarrow> py_exc + string" where
  "main binding env files =
     bind_exc (collect_entries files) (\<lambda>entries.
     let final_entries = deduplicate entries in
     bind_exc (enrich_entries (assess_risk binding env) final_entries) (\<lambda>final_entries.
     let final_entries = sort_entries final_entries;
         table = join [CHR 0x0A] (md_lines final_entries)
     in bind_exc (template_file files) (\<lambda>template_content.
          Inr (str_replace ''{{DEPENDENCY_TABLE}}'' table template_content))))"


definition example_files :: input_files where
  "example_files =
     \<lparr>npm_file = Some (Inr npm_example), poetry_file = None,
      template_file = Inr ''# SOUP{{DEPENDENCY_TABLE}}''\<rparr>"


section \<open>Properties\<close>

subsection \<open>String helpers\<close>




lemma casefold_append: "casefold (a @ b) = casefold a @ casefold b"
  by (simp add: casefold_def)





lemma lstrip_ws_idem: "lstrip_ws (lstrip_ws s) = lstrip_ws s"
  unfolding lstrip_ws_def by (induction s) simp_all

lemma rstrip_ws_idem: "rstrip_ws (rstrip_ws s) = rstrip_ws s"
  using lstrip_ws_idem [of "rev s"] by (simp add: rstrip_ws_def lstrip_ws_def)





subsection \<open>License normalization\<close>

text \<open>The default of the registry lookup is the registry's own entry for \<open>unknown\<close>.\<close>

lemma LICENSE_MAPPING_unknown: "map_of LICENSE_MAPPING ''unknown'' = Some unknown_license"
  by (simp add: LICENSE_MAPPING_def unknown_license_def)








subsection \<open>Version comparison\<close>















subsection \<open>The npm adapter\<close>

lemma rsplit_once_join:
  assumes "sep \<in> set s"
  shows "fst (rsplit_once sep s) @ sep # snd (rsplit_once sep s) = s"
    and "sep \<notin> set (snd (rsplit_once sep s))"
proof -
  let ?r = "rev s"
  let ?P = "\<lambda>c. c \<noteq> sep"
  have "sep \<in> set ?r" using assms by simp
  then have ne: "dropWhile ?P ?r \<noteq> []" by (auto simp: dropWhile_eq_Nil_conv)
  then have "hd (dropWhile ?P ?r) = sep" using hd_dropWhile [of ?P ?r] by simp
  then have d: "dropWhile ?P ?r = sep # drop 1 (dropWhile ?P ?r)"
    using ne by (cases "dropWhile ?P ?r") simp_all
  have "?r = takeWhile ?P ?r @ dropWhile ?P ?r" by simp
  then have "?r = takeWhile ?P ?r @ sep # drop 1 (dropWhile ?P ?r)" using d by simp
  then have "rev ?r = rev (takeWhile ?P ?r @ sep # drop 1 (dropWhile ?P ?r))" by simp
  then show "fst (rsplit_once sep s) @ sep # snd (rsplit_once sep s) = s"
    by (simp add: rsplit_once_def Let_def)
  show "sep \<notin> set (snd (rsplit_once sep s))"
    using set_takeWhileD [of sep ?P ?r] by (auto simp: rsplit_once_def Let_def)
qed


lemma process_npm_licenses_nth:
  "i < length data \<Longrightarrow> process_npm_licenses data ! i = process_npm_entry (data ! i)"
  by (simp add: process_npm_licenses_def)

lemma process_npm_entry_at:
  assumes "CHR ''@'' \<in> set k"
  shows "name (process_npm_entry (k, info)) @ ''@'' @ version (process_npm_entry (k, info)) = k"
    and "CHR ''@'' \<notin> set (version (process_npm_entry (k, info)))"
  using rsplit_once_join [OF assms] assms
  by (simp_all add: process_npm_entry_def Let_def split_beta)

lemma process_npm_entry_no_at:
  assumes "CHR ''@'' \<notin> set k"
  shows "name (process_npm_entry (k, info)) = k"
    and "version (process_npm_entry (k, info)) = ''unknown''"
  using assms by (simp_all add: process_npm_entry_def Let_def)

lemma process_npm_entry_license:
  "license (process_npm_entry (k, info)) =
     normalize_license
       (case info_licenses info of
          Some (LicensesList (x # xs)) \<Rightarrow> x
        | Some (LicensesStr s) \<Rightarrow> s
        | _ \<Rightarrow> [])"
  by (simp add: process_npm_entry_def Let_def split_beta npm_license_str_def normalize_license_def
      split: option.splits licenses_value.splits list.splits)

lemma process_npm_entry_url:
  "url (process_npm_entry (k, info)) =
     (case filter (\<lambda>u. u \<noteq> []) [opt_str (info_repository info), opt_str (info_url info)] of
        [] \<Rightarrow> []
      | u # us \<Rightarrow> u)"
  by (simp add: process_npm_entry_def Let_def split_beta str_or_def opt_str_def
      split: option.splits)

text \<open>
  C10: every key that contains \<open>@\<close> is split at its last \<open>@\<close> into name and version,
  a key without \<open>@\<close> is the name and the version is \<open>''unknown''\<close>; the license is the
  normalized first element of a non-empty list, and the normalized string otherwise (an
  absent field and an empty list count as the empty string); the url is the first
  non-empty of the repository field and the url field, else the empty string. One record
  is produced per key, in order.
\<close>

theorem process_npm_licenses_records:
  "length (process_npm_licenses data) = length data
   \<and> (\<forall>i<length data.
        let package_key = fst (data ! i); info = snd (data ! i);
            e = process_npm_licenses data ! i
        in (CHR ''@'' \<in> set package_key \<longrightarrow>
              name e @ ''@'' @ version e = package_key \<and> CHR ''@'' \<notin> set (version e))
         \<and> (CHR ''@'' \<notin> set package_key \<longrightarrow> name e = package_key \<and> version e = ''unknown'')
         \<and> license e =
              normalize_license
                (case info_licenses info of
                   Some (LicensesList (x # xs)) \<Rightarrow> x
                 | Some (LicensesStr s) \<Rightarrow> s
                 | _ \<Rightarrow> [])
         \<and> url e =
              (case filter (\<lambda>u. u \<noteq> [])
                      [opt_str (info_repository info), opt_str (info_url info)] of
                 [] \<Rightarrow> []
               | u # us \<Rightarrow> u))"
proof -
  have "length (process_npm_licenses data) = length data"
    by (simp add: process_npm_licenses_def)
  moreover have "\<forall>i<length data.
        let package_key = fst (data ! i); info = snd (data ! i);
            e = process_npm_licenses data ! i
        in (CHR ''@'' \<in> set package_key \<longrightarrow>
              name e @ ''@'' @ version e = package_key \<and> CHR ''@'' \<notin> set (version e))
         \<and> (CHR ''@'' \<notin> set package_key \<longrightarrow> name e = package_key \<and> version e = ''unknown'')
         \<and> license e =
              normalize_license
                (case info_licenses info of
                   Some (LicensesList (x # xs)) \<Rightarrow> x
                 | Some (LicensesStr s) \<Rightarrow> s
                 | _ \<Rightarrow> [])
         \<and> url e =
              (case filter (\<lambda>u. u \<noteq> [])
                      [opt_str (info_repository info), opt_str (info_url info)] of
                 [] \<Rightarrow> []
               | u # us \<Rightarrow> u)"
  proof (intro allI impI)
    fix i assume i: "i < length data"
    obtain k info where d: "data ! i = (k, info)" by (cases "data ! i")
    show "let package_key = fst (data ! i); info = snd (data ! i);
            e = process_npm_licenses data ! i
        in (CHR ''@'' \<in> set package_key \<longrightarrow>
              name e @ ''@'' @ version e = package_key \<and> CHR ''@'' \<notin> set (version e))
         \<and> (CHR ''@'' \<notin> set package_key \<longrightarrow> name e = package_key \<and> version e = ''unknown'')
         \<and> license e =
              normalize_license
                (case info_licenses info of
                   Some (LicensesList (x # xs)) \<Rightarrow> x
                 | Some (LicensesStr s) \<Rightarrow> s
                 | _ \<Rightarrow> [])
         \<and> url e =
              (case filter (\<lambda>u. u \<noteq> [])
                      [opt_str (info_repository info), opt_str (info_url info)] of
                 [] \<Rightarrow> []
               | u # us \<Rightarrow> u)"
      unfolding Let_def process_npm_licenses_nth [OF i] d fst_conv snd_conv
      using process_npm_entry_at [of k info] process_npm_entry_no_at [of k info]
        process_npm_entry_license [of k info] process_npm_entry_url [of k info]
      by blast
  qed
  ultimately show ?thesis by blast
qed

theorem process_npm_licenses_records_witness:
  "name (process_npm_licenses npm_example ! 0) = ''@babel/core''
   \<and> version (process_npm_licenses npm_example ! 0) = ''7.0.0''
   \<and> license (process_npm_licenses npm_example ! 0) = ''mit''
   \<and> url (process_npm_licenses npm_example ! 0) = ''https://babeljs.io''
   \<and> name (process_npm_licenses npm_example ! 1) = ''left-pad''
   \<and> version (process_npm_licenses npm_example ! 1) = ''unknown''
   \<and> license (process_npm_licenses npm_example ! 1) = ''unknown''
   \<and> url (process_npm_licenses npm_example ! 1) = []"
proof -
  have l: "length npm_example = 2" by (simp add: npm_example_def)
  have e: "process_npm_licenses npm_example =
     [\<lparr>name = ''@babel/core'', version = ''7.0.0'', url = ''https://babeljs.io'', license = ''mit''\<rparr>,
      \<lparr>name = ''left-pad'', version = ''unknown'', url = [], license = ''unknown''\<rparr>]"
    by code_simp
  show ?thesis
    using process_npm_licenses_records [of npm_example]
    by (simp add: l e)
qed

subsection \<open>Deduplication\<close>

lemma foldl_dedup_step:
  "map snd (foldl dedup_step m es) = map snd m @ first_seen (fst ` set m) es"
proof (induction es arbitrary: m)
  case Nil
  then show ?case by simp
next
  case (Cons e es)
  show ?case
  proof (cases "entry_key e \<in> fst ` set m")
    case True
    then have "dedup_step m e = m"
      by (simp add: dedup_step_def map_of_eq_None_iff)
    then show ?thesis using Cons [of m] True by simp
  next
    case False
    then have "dedup_step m e = m @ [(entry_key e, e)]"
      by (simp add: dedup_step_def map_of_eq_None_iff)
    then show ?thesis using Cons [of "m @ [(entry_key e, e)]"] False by simp
  qed
qed

lemma deduplicate_first_seen: "deduplicate es = first_seen {} es"
  by (simp add: deduplicate_def foldl_dedup_step)

lemma first_seen_subset: "set (first_seen seen es) \<subseteq> set es"
  by (induction es arbitrary: seen) auto









subsection \<open>The final sort\<close>




subsection \<open>Repository metadata fetcher\<close>





















subsection \<open>Risk scorer\<close>

lemma load_global_parse_maintainer:
  "load_global ''parse_maintainer_from_url'' v = Inl NameError"
  by (simp add: load_global_def module_globals_def)

lemma assess_risk_NameError: "assess_risk binding env repo_url local_version = Inl NameError"
  by (simp add: assess_risk_def load_global_parse_maintainer bind_exc_def)

lemma deduplicate_nonempty: "entries \<noteq> [] \<Longrightarrow> deduplicate entries \<noteq> []"
  by (cases entries) (simp_all add: deduplicate_first_seen)

lemma enrich_entry_raises:
  "scorer (url entry) (version entry) = Inl e \<Longrightarrow> enrich_entry scorer entry = Inl e"
  by (simp add: enrich_entry_def bind_exc_def Let_def)

lemma enrich_entries_first_raises:
  assumes "es \<noteq> []" "\<And>u v. scorer u v = Inl e"
  shows "enrich_entries scorer es = Inl e"
  using assms by (cases es) (simp_all add: enrich_entry_raises bind_exc_def)

text \<open>
  C1: every call of \<open>assess_risk\<close> raises \<^verbatim>\<open>NameError\<close>, for every URL, version,
  network and clock, since the name \<^verbatim>\<open>parse_maintainer_from_url\<close> is not bound. So
  \<open>main\<close> raises \<^verbatim>\<open>NameError\<close> whenever the adapters produce at least one record,
  whatever the network, the clock and the template are: nothing is scored, sorted or
  rendered.
\<close>

theorem assess_risk_raises_NameError:
  "assess_risk binding env repo_url local_version = Inl NameError
   \<and> (collect_entries files = Inr entries \<and> entries \<noteq> []
        \<longrightarrow> main binding env files = Inl NameError)"
proof -
  have "main binding env files = Inl NameError"
    if c: "collect_entries files = Inr entries" and n: "entries \<noteq> []"
  proof -
    have "enrich_entries (assess_risk binding env) (deduplicate entries) = Inl NameError"
      by (rule enrich_entries_first_raises [OF deduplicate_nonempty [OF n]])
        (rule assess_risk_NameError)
    then show ?thesis by (simp add: main_def c bind_exc_def Let_def)
  qed
  then show ?thesis using assess_risk_NameError by blast
qed


theorem assess_risk_raises_NameError_witness:
  "main id example_env example_files = Inl NameError"
proof -
  have c: "collect_entries example_files = Inr (process_npm_licenses npm_example)"
    by (simp add: collect_entries_def example_files_def bind_exc_def)
  have n: "process_npm_licenses npm_example \<noteq> []"
    by (simp add: process_npm_licenses_def npm_example_def)
  show ?thesis
    using assess_risk_raises_NameError
      [of id example_env "[]" "[]" example_files "process_npm_licenses npm_example"] c n
    by blast
qed

text \<open>
  C2: the specification has the scorer return \<open>(''Low'', [])\<close> at once, with no fetch,
  for every URL that is not a GitHub URL. At the URL \<open>https://gitlab.com/x/y\<close> and at
  the empty URL \<open>assess_risk\<close> raises \<^verbatim>\<open>NameError\<close> instead.
\<close>

theorem assess_risk_non_github_url_raises:
  "assess_risk binding env ''https://gitlab.com/x/y'' local_version = Inl NameError
   \<and> assess_risk binding env [] local_version = Inl NameError"
  by (simp add: assess_risk_def load_global_def module_globals_def bind_exc_def)

text \<open>
  C5: the specification has the scorer add up the contributions of six rules and return
  the risk level of the total with the labels of the rules that applied. At a GitHub
  URL \<open>assess_risk\<close> raises \<^verbatim>\<open>NameError\<close> instead.
\<close>

theorem assess_risk_github_url_raises:
  "assess_risk binding example_env ''https://github.com/psf/requests'' ''1.0.0'' = Inl NameError"
  by (simp add: assess_risk_def load_global_def module_globals_def bind_exc_def)

text \<open>
  The body of \<open>assess_risk\<close> after its first statement does what C2 and C5 describe:
  a URL without the GitHub shape gives \<open>(''Low'', [])\<close>, whatever the network is, and
  the score of well-typed metadata follows the schedule of the six rules.
\<close>

lemma assess_risk_body_non_github:
  assumes "re_search_github repo_url = None"
  shows "assess_risk_body pm env repo_url local_version = Inr (''Low'', [])"
  using assms by (simp add: assess_risk_body_def Let_def)

lemma re_search_github_examples:
  "re_search_github [] = None"
  "re_search_github ''https://gitlab.com/x/y'' = None"
  "re_search_github ''https://github.com/psf/requests.git'' = Some (''psf'', ''requests.git'')"
  by code_simp+

lemma match_github_here_shape:
  assumes "match_github_here s = Some g"
  shows "\<exists>post. s = ''github.com/'' @ fst g @ ''/'' @ snd g @ post"
proof -
  let ?P = "\<lambda>c. c \<noteq> CHR ''/''"
  let ?rest = "drop 11 s"
  let ?after = "dropWhile ?P ?rest"
  from assms have p: "take 11 s = ''github.com/''"
    and t: "take 1 ?after = ''/''"
    and g: "g = (takeWhile ?P ?rest, takeWhile ?P (drop 1 ?after))"
    by (auto simp: match_github_here_def Let_def split: if_splits)
  have "s = take 11 s @ ?rest" by simp
  also have "?rest = takeWhile ?P ?rest @ ?after" by simp
  also have "?after = take 1 ?after @ drop 1 ?after" by simp
  also have "drop 1 ?after = takeWhile ?P (drop 1 ?after) @ dropWhile ?P (drop 1 ?after)"
    by simp
  finally have "s = ''github.com/'' @ fst g @ ''/'' @ snd g @ dropWhile ?P (drop 1 ?after)"
    unfolding p t g fst_conv snd_conv .
  then show ?thesis by blast
qed

lemma re_search_github_shape:
  assumes "re_search_github s = Some g"
  shows "\<exists>pre post. s = pre @ ''github.com/'' @ fst g @ ''/'' @ snd g @ post"
  using assms
proof (induction s)
  case Nil
  then show ?case by simp
next
  case (Cons c cs)
  show ?case
  proof (cases "match_github_here (c # cs)")
    case None
    with Cons.prems have "re_search_github cs = Some g" by simp
    from Cons.IH [OF this] obtain pre post where
      "cs = pre @ ''github.com/'' @ fst g @ ''/'' @ snd g @ post" by blast
    then have "c # cs = (c # pre) @ ''github.com/'' @ fst g @ ''/'' @ snd g @ post" by simp
    then show ?thesis by blast
  next
    case (Some h)
    with Cons.prems have "h = g" by simp
    with Some match_github_here_shape obtain post where
      "c # cs = [] @ ''github.com/'' @ fst g @ ''/'' @ snd g @ post" by fastforce
    then show ?thesis by blast
  qed
qed

lemma score_info_schedule:
  assumes "\<exists>s. stars info = JNum s" "\<exists>n. open_issues_count info = JNum n"
    and "\<forall>t. last_commit_date info \<noteq> Some (Naive t)"
    and "\<forall>t. last_release_date info \<noteq> Some (Naive t)"
    and "\<exists>b. is_significantly_older (JStr lv) (latest_version info) = Inr b"
  shows "score_info now info lv =
     Inr (risk_of_score (sum_list (map fst (spec_triggered_rules now info lv))),
          join '', '' (map snd (spec_triggered_rules now info lv)))"
proof -
  obtain s n b where s: "stars info = JNum s" and n: "open_issues_count info = JNum n"
    and b: "is_significantly_older (JStr lv) (latest_version info) = Inr b"
    using assms by blast
  consider "last_commit_date info = None" | t where "last_commit_date info = Some (Aware t)"
    using assms(3) by (cases "last_commit_date info") (auto intro: datetime.exhaust)
  note c = this
  consider "last_release_date info = None" | t where "last_release_date info = Some (Aware t)"
    using assms(4) by (cases "last_release_date info") (auto intro: datetime.exhaust)
  note r = this
  show ?thesis
    by (cases rule: c; cases rule: r)
      (simp_all add: score_info_def spec_triggered_rules_def s n b bind_exc_def as_number_def
        days_since_def add_note_def Let_def)
qed

subsection \<open>Unknown licenses\<close>






end
